theory Spec2Isabelle
  imports Main
begin

section \<open>Documents, JSON and the two external stores\<close>

text \<open>
  The service keeps Movie and Genre documents in a document database (through
  Mongoose models) and JSON snapshots of query results in Redis. The handlers
  of \<^verbatim>\<open>routes/movies.js\<close> and \<^verbatim>\<open>routes/genres.js\<close> are modelled as functions
  from a world (both stores, a clock, and the list of external calls made so
  far) to a response and the next world.

  JSON documents carry strings, arrays and objects: the schemas declare every
  scalar field as a String or an ObjectId (printed as a string), so no other
  JSON value arises. The version key that Mongoose adds to stored documents is
  left out.
\<close>

datatype json = JString string | JArray "json list" | JObject "(string \<times> json) list"

text \<open>
  A JSON text, as held in Redis. A text written by \<^verbatim>\<open>JSON.stringify\<close> is
  identified with the document it denotes, so that \<^verbatim>\<open>JSON.parse\<close> reads back what
  \<^verbatim>\<open>JSON.stringify\<close> wrote; such a text is never the empty string, hence always
  truthy in \<^verbatim>\<open>if (cachedData)\<close>.
\<close>

datatype jtext = Text json

fun JSON_stringify :: "json \<Rightarrow> jtext" where
  "JSON_stringify j = Text j"

fun JSON_parse :: "jtext \<Rightarrow> json" where
  "JSON_parse (Text j) = j"

text \<open>\<^verbatim>\<open>models/Movie.js\<close> and \<^verbatim>\<open>models/Genre.js\<close>: the stored documents.\<close>

record movie =
  movie_id :: string
  movie_name :: string
  movie_director :: string
  movie_actors :: "string list"
  movie_imbdrating :: string
  movie_image :: "string option"
  movie_genres :: "string list"

record genre =
  genre_id :: string
  genre_name :: string
  genre_movies :: "string list"

text \<open>
  \<^verbatim>\<open>req.body\<close> after \<^verbatim>\<open>express.json()\<close>, at the schema's types: each key the
  handlers destructure is absent (\<open>None\<close>, JavaScript's \<^verbatim>\<open>undefined\<close>) or
  present. Whatever else the client sent lives in the record's extension.
\<close>

record req_body =
  req_name :: "string option"
  req_director :: "string option"
  req_actors :: "string list option"
  req_imbdrating :: "string option"
  req_image :: "string option"
  req_genres :: "string list option"

record response =
  status :: nat
  body :: json

text \<open>
  Every call to Redis or to the database, with the arguments that matter.
  \<open>MovieFindById\<close> and \<open>GenreFindById\<close> stand for the query together with its
  \<^verbatim>\<open>populate\<close>; \<open>GenreFindPopulate\<close> for \<^verbatim>\<open>Genre.find().populate('movies')\<close>.
\<close>

datatype call =
    RedisGet string
  | RedisSetex string nat
  | RedisDel string
  | MovieFind
  | MovieFindById string
  | MovieCreate string
  | MovieFindByIdAndUpdate string
  | MovieFindByIdAndDelete string
  | GenreFind
  | GenreFindPopulate
  | GenreFindById string
  | GenreCreate string
  | GenreUpdateMany "string list option"
  | GenreFindByIdAndDelete string

text \<open>
  What a handler's \<^verbatim>\<open>catch (err)\<close> can receive: a Mongoose validation error,
  raised before the database is reached, or the failure of an external call.
\<close>

datatype exn = ValidationError | Failure call

record world =
  Movies :: "movie list"
  Genres :: "genre list"
  redis :: "string \<Rightarrow> (nat \<times> jtext) option"
  clock :: nat
  calls :: "call list"

text \<open>
  An awaited call returns a value or throws, and leaves a world behind.
  \<open>await\<close> sequences two steps inside a \<^verbatim>\<open>try\<close> block: an exception skips the
  rest of the block. \<open>respond\<close> is the handler sending its response.
\<close>

type_synonym 'a promise = "(exn + 'a) \<times> world"

definition await ::
  "(world \<Rightarrow> 'a promise) \<Rightarrow> ('a \<Rightarrow> world \<Rightarrow> 'b promise) \<Rightarrow> world \<Rightarrow> 'b promise" where
  "await m f w = (case m w of (Inl e, w1) \<Rightarrow> (Inl e, w1) | (Inr x, w1) \<Rightarrow> f x w1)"

definition respond :: "response \<Rightarrow> world \<Rightarrow> response promise" where
  "respond r w = (Inr r, w)"

text \<open>
  Each external call is first recorded. The parameter \<open>throws\<close> says which
  calls of the current request raise (an unreachable server, a timeout, a
  malformed ObjectId in the arguments, a duplicate key); a call that raises has
  no effect on the stores.
\<close>

definition external ::
  "(call \<Rightarrow> bool) \<Rightarrow> call \<Rightarrow> (world \<Rightarrow> 'a \<times> world) \<Rightarrow> world \<Rightarrow> 'a promise" where
  "external throws c run w =
     (let w1 = w\<lparr>calls := calls w @ [c]\<rparr> in
      if throws c then (Inl (Failure c), w1)
      else (case run w1 of (x, w2) \<Rightarrow> (Inr x, w2)))"

subsection \<open>Redis\<close>

text \<open>
  An entry is stored with the time at which it expires; \<^verbatim>\<open>get\<close> answers
  \<^verbatim>\<open>null\<close> for a key that is absent or expired.
\<close>

definition lookup :: "world \<Rightarrow> string \<Rightarrow> jtext option" where
  "lookup w key =
     (case redis w key of
        None \<Rightarrow> None
      | Some (expires, v) \<Rightarrow> if clock w < expires then Some v else None)"

definition redisClient_get :: "(call \<Rightarrow> bool) \<Rightarrow> string \<Rightarrow> world \<Rightarrow> jtext option promise" where
  "redisClient_get throws key = external throws (RedisGet key) (\<lambda>w. (lookup w key, w))"

definition redisClient_setex :: "(call \<Rightarrow> bool) \<Rightarrow> string \<Rightarrow> nat \<Rightarrow> jtext \<Rightarrow> world \<Rightarrow> unit promise" where
  "redisClient_setex throws key seconds v =
     external throws (RedisSetex key seconds)
       (\<lambda>w. ((), w\<lparr>redis := (redis w)(key \<mapsto> (clock w + seconds, v))\<rparr>))"

definition redisClient_del :: "(call \<Rightarrow> bool) \<Rightarrow> string \<Rightarrow> world \<Rightarrow> unit promise" where
  "redisClient_del throws key =
     external throws (RedisDel key) (\<lambda>w. ((), w\<lparr>redis := (redis w)(key := None)\<rparr>))"

text \<open>Time passing between two requests.\<close>

definition advance :: "nat \<Rightarrow> world \<Rightarrow> world" where
  "advance seconds w = w\<lparr>clock := clock w + seconds\<rparr>"

subsection \<open>The collections\<close>

fun findOne :: "('a \<Rightarrow> bool) \<Rightarrow> 'a list \<Rightarrow> 'a option" where
  "findOne P [] = None"
| "findOne P (x # xs) = (if P x then Some x else findOne P xs)"

fun deleteOne :: "('a \<Rightarrow> bool) \<Rightarrow> 'a list \<Rightarrow> 'a list" where
  "deleteOne P [] = []"
| "deleteOne P (x # xs) = (if P x then xs else x # deleteOne P xs)"

fun updateOne :: "('a \<Rightarrow> bool) \<Rightarrow> ('a \<Rightarrow> 'a) \<Rightarrow> 'a list \<Rightarrow> 'a list" where
  "updateOne P f [] = []"
| "updateOne P f (x # xs) = (if P x then f x # xs else x # updateOne P f xs)"

text \<open>
  \<^verbatim>\<open>populate\<close> replaces each reference by the document it names, in the order of
  the references, and drops a reference that names no document.
\<close>

fun populate :: "('d \<Rightarrow> string) \<Rightarrow> 'd list \<Rightarrow> string list \<Rightarrow> 'd list" where
  "populate ident docs [] = []"
| "populate ident docs (r # refs) =
     (case findOne (\<lambda>d. ident d = r) docs of
        None \<Rightarrow> populate ident docs refs
      | Some d \<Rightarrow> d # populate ident docs refs)"

definition movie_fields :: "movie \<Rightarrow> json \<Rightarrow> json" where
  "movie_fields m genres =
     JObject ([(''_id'', JString (movie_id m)),
               (''name'', JString (movie_name m)),
               (''director'', JString (movie_director m)),
               (''actors'', JArray (map JString (movie_actors m))),
               (''imbdrating'', JString (movie_imbdrating m))]
              @ (case movie_image m of None \<Rightarrow> [] | Some i \<Rightarrow> [(''image'', JString i)])
              @ [(''genres'', genres)])"

definition genre_fields :: "genre \<Rightarrow> json \<Rightarrow> json" where
  "genre_fields g movies =
     JObject [(''_id'', JString (genre_id g)),
              (''name'', JString (genre_name g)),
              (''movies'', movies)]"

text \<open>\<^verbatim>\<open>toJSON\<close> of a document whose references are ObjectIds.\<close>

definition movie_toJSON :: "movie \<Rightarrow> json" where
  "movie_toJSON m = movie_fields m (JArray (map JString (movie_genres m)))"

definition genre_toJSON :: "genre \<Rightarrow> json" where
  "genre_toJSON g = genre_fields g (JArray (map JString (genre_movies g)))"

text \<open>\<^verbatim>\<open>toJSON\<close> of a document after \<^verbatim>\<open>populate\<close>.\<close>

definition movie_populated_toJSON :: "movie \<times> genre list \<Rightarrow> json" where
  "movie_populated_toJSON mg = movie_fields (fst mg) (JArray (map genre_toJSON (snd mg)))"

definition genre_populated_toJSON :: "genre \<times> movie list \<Rightarrow> json" where
  "genre_populated_toJSON gm = genre_fields (fst gm) (JArray (map movie_toJSON (snd gm)))"

definition Movie_find :: "(call \<Rightarrow> bool) \<Rightarrow> world \<Rightarrow> movie list promise" where
  "Movie_find throws = external throws MovieFind (\<lambda>w. (Movies w, w))"

definition Movie_findById_populate ::
  "(call \<Rightarrow> bool) \<Rightarrow> string \<Rightarrow> world \<Rightarrow> (movie \<times> genre list) option promise" where
  "Movie_findById_populate throws ident =
     external throws (MovieFindById ident)
       (\<lambda>w. (case findOne (\<lambda>m. movie_id m = ident) (Movies w) of
                None \<Rightarrow> None
              | Some m \<Rightarrow> Some (m, populate genre_id (Genres w) (movie_genres m)), w))"

text \<open>
  The schema's validation on \<^verbatim>\<open>Movie.create\<close>: name, director and imbdrating
  are required strings (absent and empty both fail), every actor is a required
  string, and the two arrays default to empty.
\<close>

definition required :: "string option \<Rightarrow> bool" where
  "required field = (case field of None \<Rightarrow> False | Some s \<Rightarrow> s \<noteq> [])"

definition or_empty :: "'a list option \<Rightarrow> 'a list" where
  "or_empty field = (case field of None \<Rightarrow> [] | Some xs \<Rightarrow> xs)"

definition or_else :: "'a option \<Rightarrow> 'a \<Rightarrow> 'a" where
  "or_else field d = (case field of None \<Rightarrow> d | Some x \<Rightarrow> x)"

definition valid_movie :: "'a req_body_scheme \<Rightarrow> bool" where
  "valid_movie b =
     (required (req_name b) \<and> required (req_director b) \<and> required (req_imbdrating b)
      \<and> [] \<notin> set (or_empty (req_actors b)))"

definition new_movie :: "string \<Rightarrow> 'a req_body_scheme \<Rightarrow> movie" where
  "new_movie oid b =
     \<lparr>movie_id = oid,
      movie_name = or_else (req_name b) [],
      movie_director = or_else (req_director b) [],
      movie_actors = or_empty (req_actors b),
      movie_imbdrating = or_else (req_imbdrating b) [],
      movie_image = req_image b,
      movie_genres = or_empty (req_genres b)\<rparr>"

text \<open>\<open>oid\<close> is the ObjectId that Mongoose generates for the new document.\<close>

definition Movie_create ::
  "(call \<Rightarrow> bool) \<Rightarrow> string \<Rightarrow> 'a req_body_scheme \<Rightarrow> world \<Rightarrow> movie promise" where
  "Movie_create throws oid b w =
     (if valid_movie b
      then external throws (MovieCreate oid)
             (\<lambda>w1. (new_movie oid b, w1\<lparr>Movies := Movies w1 @ [new_movie oid b]\<rparr>)) w
      else (Inl ValidationError, w))"

text \<open>
  \<^verbatim>\<open>findByIdAndUpdate\<close> sets the keys that are present in the update and runs
  no validation; with \<^verbatim>\<open>{ new: true }\<close> it returns the updated document.
\<close>

definition apply_update :: "'a req_body_scheme \<Rightarrow> movie \<Rightarrow> movie" where
  "apply_update b m =
     m\<lparr>movie_name := or_else (req_name b) (movie_name m),
       movie_director := or_else (req_director b) (movie_director m),
       movie_actors := or_else (req_actors b) (movie_actors m),
       movie_imbdrating := or_else (req_imbdrating b) (movie_imbdrating m),
       movie_image := (case req_image b of None \<Rightarrow> movie_image m | Some i \<Rightarrow> Some i),
       movie_genres := or_else (req_genres b) (movie_genres m)\<rparr>"

definition Movie_findByIdAndUpdate ::
  "(call \<Rightarrow> bool) \<Rightarrow> string \<Rightarrow> 'a req_body_scheme \<Rightarrow> world \<Rightarrow> movie option promise" where
  "Movie_findByIdAndUpdate throws ident b =
     external throws (MovieFindByIdAndUpdate ident)
       (\<lambda>w. (case findOne (\<lambda>m. movie_id m = ident) (Movies w) of
                None \<Rightarrow> (None, w)
              | Some m \<Rightarrow>
                  (Some (apply_update b m),
                   w\<lparr>Movies := updateOne (\<lambda>m. movie_id m = ident) (apply_update b) (Movies w)\<rparr>)))"

definition Movie_findByIdAndDelete ::
  "(call \<Rightarrow> bool) \<Rightarrow> string \<Rightarrow> world \<Rightarrow> movie option promise" where
  "Movie_findByIdAndDelete throws ident =
     external throws (MovieFindByIdAndDelete ident)
       (\<lambda>w. (findOne (\<lambda>m. movie_id m = ident) (Movies w),
             w\<lparr>Movies := deleteOne (\<lambda>m. movie_id m = ident) (Movies w)\<rparr>))"

definition Genre_find :: "(call \<Rightarrow> bool) \<Rightarrow> world \<Rightarrow> genre list promise" where
  "Genre_find throws = external throws GenreFind (\<lambda>w. (Genres w, w))"

definition Genre_find_populate ::
  "(call \<Rightarrow> bool) \<Rightarrow> world \<Rightarrow> (genre \<times> movie list) list promise" where
  "Genre_find_populate throws =
     external throws GenreFindPopulate
       (\<lambda>w. (map (\<lambda>g. (g, populate movie_id (Movies w) (genre_movies g))) (Genres w), w))"

definition Genre_findById_populate ::
  "(call \<Rightarrow> bool) \<Rightarrow> string \<Rightarrow> world \<Rightarrow> (genre \<times> movie list) option promise" where
  "Genre_findById_populate throws ident =
     external throws (GenreFindById ident)
       (\<lambda>w. (case findOne (\<lambda>g. genre_id g = ident) (Genres w) of
                None \<Rightarrow> None
              | Some g \<Rightarrow> Some (g, populate movie_id (Movies w) (genre_movies g)), w))"

text \<open>
  \<^verbatim>\<open>Genre.create({ name })\<close>: the name is required, the movies array starts
  empty.
\<close>

definition new_genre :: "string \<Rightarrow> string option \<Rightarrow> genre" where
  "new_genre oid name = \<lparr>genre_id = oid, genre_name = or_else name [], genre_movies = []\<rparr>"

definition Genre_create ::
  "(call \<Rightarrow> bool) \<Rightarrow> string \<Rightarrow> string option \<Rightarrow> world \<Rightarrow> genre promise" where
  "Genre_create throws oid name w =
     (if required name
      then external throws (GenreCreate oid)
             (\<lambda>w1. (new_genre oid name, w1\<lparr>Genres := Genres w1 @ [new_genre oid name]\<rparr>)) w
      else (Inl ValidationError, w))"

text \<open>
  \<^verbatim>\<open>Genre.updateMany({ _id: { $in: genres } }, { $push: { movies: id } })\<close>: every
  genre whose id is among \<open>genres\<close> gets \<open>id\<close> appended once to its movies; with
  \<open>genres\<close> undefined the filter matches no document.
\<close>

definition push_movie :: "string list \<Rightarrow> string \<Rightarrow> genre \<Rightarrow> genre" where
  "push_movie ids mid g =
     (if genre_id g \<in> set ids then g\<lparr>genre_movies := genre_movies g @ [mid]\<rparr> else g)"

definition Genre_updateMany ::
  "(call \<Rightarrow> bool) \<Rightarrow> string list option \<Rightarrow> string \<Rightarrow> world \<Rightarrow> unit promise" where
  "Genre_updateMany throws genres mid =
     external throws (GenreUpdateMany genres)
       (\<lambda>w. ((), w\<lparr>Genres := map (push_movie (or_empty genres) mid) (Genres w)\<rparr>))"

definition Genre_findByIdAndDelete ::
  "(call \<Rightarrow> bool) \<Rightarrow> string \<Rightarrow> world \<Rightarrow> genre option promise" where
  "Genre_findByIdAndDelete throws ident =
     external throws (GenreFindByIdAndDelete ident)
       (\<lambda>w. (findOne (\<lambda>g. genre_id g = ident) (Genres w),
             w\<lparr>Genres := deleteOne (\<lambda>g. genre_id g = ident) (Genres w)\<rparr>))"

section \<open>The handlers\<close>

definition res_status_json :: "nat \<Rightarrow> json \<Rightarrow> response" where
  "res_status_json code j = \<lparr>status = code, body = j\<rparr>"

definition res_json :: "json \<Rightarrow> response" where
  "res_json j = res_status_json 200 j"

text \<open>
  \<^verbatim>\<open>try { ... } catch (err) { res.status(code).json({ error: message }) }\<close>: whatever
  the block throws, the handler answers with the one response of its
  \<^verbatim>\<open>catch\<close>.
\<close>

definition catch :: "response promise \<Rightarrow> nat \<Rightarrow> string \<Rightarrow> response \<times> world" where
  "catch p code message =
     (case p of
        (Inl err, w) \<Rightarrow> (res_status_json code (JObject [(''error'', JString message)]), w)
      | (Inr res, w) \<Rightarrow> (res, w))"

subsection \<open>\<^verbatim>\<open>routes/movies.js\<close>\<close>

definition get_movies_try :: "(call \<Rightarrow> bool) \<Rightarrow> world \<Rightarrow> response promise" where
  "get_movies_try throws =
     await (redisClient_get throws ''movies:all'') (\<lambda>cachedData.
       case cachedData of
         Some t \<Rightarrow> respond (res_json (JSON_parse t))
       | None \<Rightarrow>
           await (Movie_find throws) (\<lambda>movies.
           await (redisClient_setex throws ''movies:all'' 3600
                    (JSON_stringify (JArray (map movie_toJSON movies)))) (\<lambda>_.
           respond (res_json (JArray (map movie_toJSON movies))))))"

definition get_movies :: "(call \<Rightarrow> bool) \<Rightarrow> world \<Rightarrow> response \<times> world" where
  "get_movies throws w = catch (get_movies_try throws w) 500 ''Internal Server Error''"

definition get_movies_id_try :: "(call \<Rightarrow> bool) \<Rightarrow> string \<Rightarrow> world \<Rightarrow> response promise" where
  "get_movies_id_try throws ident =
     await (redisClient_get throws (''movie:'' @ ident)) (\<lambda>cachedData.
       case cachedData of
         Some t \<Rightarrow> respond (res_json (JSON_parse t))
       | None \<Rightarrow>
           await (Movie_findById_populate throws ident) (\<lambda>movie.
             case movie of
               None \<Rightarrow>
                 respond (res_status_json 404 (JObject [(''error'', JString ''Movie not found'')]))
             | Some m \<Rightarrow>
                 await (redisClient_setex throws (''movie:'' @ ident) 3600
                          (JSON_stringify (movie_populated_toJSON m))) (\<lambda>_.
                 respond (res_json (movie_populated_toJSON m)))))"

definition get_movies_id :: "(call \<Rightarrow> bool) \<Rightarrow> string \<Rightarrow> world \<Rightarrow> response \<times> world" where
  "get_movies_id throws ident w =
     catch (get_movies_id_try throws ident w) 500 ''Internal Server Error''"

definition post_movies_try ::
  "(call \<Rightarrow> bool) \<Rightarrow> string \<Rightarrow> 'a req_body_scheme \<Rightarrow> world \<Rightarrow> response promise" where
  "post_movies_try throws oid b =
     await (Movie_create throws oid b) (\<lambda>movie.
     await (Genre_updateMany throws (req_genres b) (movie_id movie)) (\<lambda>_.
     await (redisClient_del throws ''movies:all'') (\<lambda>_.
     respond (res_status_json 201
       (JObject [(''message'', JString ''Movie Created''), (''movie'', movie_toJSON movie)])))))"

definition post_movies ::
  "(call \<Rightarrow> bool) \<Rightarrow> string \<Rightarrow> 'a req_body_scheme \<Rightarrow> world \<Rightarrow> response \<times> world" where
  "post_movies throws oid b w = catch (post_movies_try throws oid b w) 400 ''Invalid data''"

definition put_movies_id_try ::
  "(call \<Rightarrow> bool) \<Rightarrow> string \<Rightarrow> 'a req_body_scheme \<Rightarrow> world \<Rightarrow> response promise" where
  "put_movies_id_try throws ident b =
     await (Movie_findByIdAndUpdate throws ident b) (\<lambda>movie.
       case movie of
         None \<Rightarrow>
           respond (res_status_json 404 (JObject [(''error'', JString ''Movie not found'')]))
       | Some m \<Rightarrow>
           await (Genre_updateMany throws (req_genres b) (movie_id m)) (\<lambda>_.
           await (redisClient_del throws ''movies:all'') (\<lambda>_.
           respond (res_json (movie_toJSON m)))))"

definition put_movies_id ::
  "(call \<Rightarrow> bool) \<Rightarrow> string \<Rightarrow> 'a req_body_scheme \<Rightarrow> world \<Rightarrow> response \<times> world" where
  "put_movies_id throws ident b w =
     catch (put_movies_id_try throws ident b w) 500 ''Internal Server Error''"

definition delete_movies_id_try ::
  "(call \<Rightarrow> bool) \<Rightarrow> string \<Rightarrow> world \<Rightarrow> response promise" where
  "delete_movies_id_try throws ident =
     await (Movie_findByIdAndDelete throws ident) (\<lambda>movie.
       case movie of
         None \<Rightarrow>
           respond (res_status_json 404 (JObject [(''error'', JString ''Movie not found'')]))
       | Some m \<Rightarrow>
           await (redisClient_del throws ''movies:all'') (\<lambda>_.
           respond (res_json (JObject [(''message'', JString ''Movie deleted'')]))))"

definition delete_movies_id :: "(call \<Rightarrow> bool) \<Rightarrow> string \<Rightarrow> world \<Rightarrow> response \<times> world" where
  "delete_movies_id throws ident w =
     catch (delete_movies_id_try throws ident w) 500 ''Internal Server Error''"

subsection \<open>\<^verbatim>\<open>routes/genres.js\<close>\<close>

definition get_genres_try :: "(call \<Rightarrow> bool) \<Rightarrow> world \<Rightarrow> response promise" where
  "get_genres_try throws =
     await (redisClient_get throws ''genres:all'') (\<lambda>cachedData.
       case cachedData of
         Some t \<Rightarrow> respond (res_json (JSON_parse t))
       | None \<Rightarrow>
           await (Genre_find throws) (\<lambda>genres.
           await (redisClient_setex throws ''genres:all'' 3600
                    (JSON_stringify (JArray (map genre_toJSON genres)))) (\<lambda>_.
           respond (res_json (JArray (map genre_toJSON genres))))))"

definition get_genres :: "(call \<Rightarrow> bool) \<Rightarrow> world \<Rightarrow> response \<times> world" where
  "get_genres throws w = catch (get_genres_try throws w) 500 ''Internal Server Error''"

definition get_genres_movies_try :: "(call \<Rightarrow> bool) \<Rightarrow> world \<Rightarrow> response promise" where
  "get_genres_movies_try throws =
     await (redisClient_get throws ''genres:all-with-movies'') (\<lambda>cachedData.
       case cachedData of
         Some t \<Rightarrow> respond (res_json (JSON_parse t))
       | None \<Rightarrow>
           await (Genre_find_populate throws) (\<lambda>genres.
           await (redisClient_setex throws ''genres:all-with-movies'' 3600
                    (JSON_stringify (JArray (map genre_populated_toJSON genres)))) (\<lambda>_.
           respond (res_json (JArray (map genre_populated_toJSON genres))))))"

definition get_genres_movies :: "(call \<Rightarrow> bool) \<Rightarrow> world \<Rightarrow> response \<times> world" where
  "get_genres_movies throws w =
     catch (get_genres_movies_try throws w) 500 ''Internal Server Error''"

definition get_genres_genreId_movies_try ::
  "(call \<Rightarrow> bool) \<Rightarrow> string \<Rightarrow> world \<Rightarrow> response promise" where
  "get_genres_genreId_movies_try throws genreId =
     await (redisClient_get throws (''genre:'' @ genreId @ '':movies'')) (\<lambda>cachedData.
       case cachedData of
         Some t \<Rightarrow> respond (res_json (JSON_parse t))
       | None \<Rightarrow>
           await (Genre_findById_populate throws genreId) (\<lambda>genre.
             case genre of
               None \<Rightarrow>
                 respond (res_status_json 404 (JObject [(''error'', JString ''Genre not found'')]))
             | Some g \<Rightarrow>
                 await (redisClient_setex throws (''genre:'' @ genreId @ '':movies'') 3600
                          (JSON_stringify (JArray (map movie_toJSON (snd g))))) (\<lambda>_.
                 respond (res_json (JArray (map movie_toJSON (snd g)))))))"

definition get_genres_genreId_movies ::
  "(call \<Rightarrow> bool) \<Rightarrow> string \<Rightarrow> world \<Rightarrow> response \<times> world" where
  "get_genres_genreId_movies throws genreId w =
     catch (get_genres_genreId_movies_try throws genreId w) 500 ''Internal Server Error''"

definition post_genres_try ::
  "(call \<Rightarrow> bool) \<Rightarrow> string \<Rightarrow> 'a req_body_scheme \<Rightarrow> world \<Rightarrow> response promise" where
  "post_genres_try throws oid b =
     await (Genre_create throws oid (req_name b)) (\<lambda>genre.
     await (redisClient_setex throws (''genre:'' @ genre_id genre) 3600
              (JSON_stringify (genre_toJSON genre))) (\<lambda>_.
     respond (res_status_json 201
       (JObject [(''message'', JString ''Genre Created''), (''genre'', genre_toJSON genre)]))))"

definition post_genres ::
  "(call \<Rightarrow> bool) \<Rightarrow> string \<Rightarrow> 'a req_body_scheme \<Rightarrow> world \<Rightarrow> response \<times> world" where
  "post_genres throws oid b w = catch (post_genres_try throws oid b w) 400 ''Invalid data''"

definition delete_genres_genreId_try ::
  "(call \<Rightarrow> bool) \<Rightarrow> string \<Rightarrow> world \<Rightarrow> response promise" where
  "delete_genres_genreId_try throws genreId =
     await (Genre_findByIdAndDelete throws genreId) (\<lambda>genre.
       case genre of
         None \<Rightarrow>
           respond (res_status_json 404 (JObject [(''error'', JString ''Genre not found'')]))
       | Some g \<Rightarrow>
           await (redisClient_del throws (''genre:'' @ genreId)) (\<lambda>_.
           respond (res_json (JObject [(''message'', JString ''Genre deleted'')]))))"

definition delete_genres_genreId ::
  "(call \<Rightarrow> bool) \<Rightarrow> string \<Rightarrow> world \<Rightarrow> response \<times> world" where
  "delete_genres_genreId throws genreId w =
     catch (delete_genres_genreId_try throws genreId w) 500 ''Internal Server Error''"

subsection \<open>The application\<close>

text \<open>
  \<^verbatim>\<open>server.js\<close> mounts the movies router, then the genres router, on the same
  prefix. A request is a method and the path segments after the prefix; one
  that no route matches falls through both routers to the framework's final
  handler, which answers 404 (with a page, not a JSON document).
\<close>

datatype verb = GET | POST | PUT | DELETE

definition finalhandler :: "world \<Rightarrow> response \<times> world" where
  "finalhandler w = (res_status_json 404 (JString ''Not Found''), w)"

fun app ::
  "(call \<Rightarrow> bool) \<Rightarrow> string \<Rightarrow> verb \<Rightarrow> string list \<Rightarrow> 'a req_body_scheme \<Rightarrow> world
     \<Rightarrow> response \<times> world" where
  "app throws oid GET [a] b w =
     (if a = ''movies'' then get_movies throws w
      else if a = ''genres'' then get_genres throws w
      else if a = ''genres-movies'' then get_genres_movies throws w
      else finalhandler w)"
| "app throws oid GET [a, i] b w =
     (if a = ''movies'' then get_movies_id throws i w else finalhandler w)"
| "app throws oid GET [a, i, c] b w =
     (if a = ''genres'' \<and> c = ''movies'' then get_genres_genreId_movies throws i w
      else finalhandler w)"
| "app throws oid POST [a] b w =
     (if a = ''movies'' then post_movies throws oid b w
      else if a = ''genres'' then post_genres throws oid b w
      else finalhandler w)"
| "app throws oid PUT [a, i] b w =
     (if a = ''movies'' then put_movies_id throws i b w else finalhandler w)"
| "app throws oid DELETE [a, i] b w =
     (if a = ''movies'' then delete_movies_id throws i w
      else if a = ''genres'' then delete_genres_genreId throws i w
      else finalhandler w)"
| "app throws oid meth path b w = finalhandler w"

text \<open>The calls a request made: what it added to the record of calls.\<close>

definition calls_since :: "world \<Rightarrow> world \<Rightarrow> call list" where
  "calls_since w w1 = drop (length (calls w)) (calls w1)"

section \<open>The cache-aside protocol, as specified\<close>

text \<open>
  The read-through operation in the specification's words, as a property of a
  handler at a world: on a hit the handler answers the parsed entry and does
  nothing but the Redis lookup; on a miss it runs the database query, and
  either reports not-found without writing to Redis, or writes the
  serialised result under the key for 3600 seconds and answers that result.
\<close>

definition follows_read_through ::
  "(world \<Rightarrow> response \<times> world) \<Rightarrow> string \<Rightarrow> call \<Rightarrow> (world \<Rightarrow> json option) \<Rightarrow> world \<Rightarrow> bool" where
  "follows_read_through handler key query loader w =
     (case lookup w key of
        Some t \<Rightarrow> handler w = (res_json (JSON_parse t), w\<lparr>calls := calls w @ [RedisGet key]\<rparr>)
      | None \<Rightarrow>
          (case loader w of
             None \<Rightarrow>
               status (fst (handler w)) = 404
               \<and> snd (handler w) = w\<lparr>calls := calls w @ [RedisGet key, query]\<rparr>
           | Some result \<Rightarrow>
               handler w =
                 (res_json result,
                  w\<lparr>calls := calls w @ [RedisGet key, query, RedisSetex key 3600],
                    redis := (redis w)(key \<mapsto> (clock w + 3600, JSON_stringify result))\<rparr>)))"

text \<open>What the database holds for each read endpoint.\<close>

definition all_movies :: "world \<Rightarrow> json option" where
  "all_movies w = Some (JArray (map movie_toJSON (Movies w)))"

definition movie_by_id :: "string \<Rightarrow> world \<Rightarrow> json option" where
  "movie_by_id ident w =
     (case findOne (\<lambda>m. movie_id m = ident) (Movies w) of
        None \<Rightarrow> None
      | Some m \<Rightarrow>
          Some (movie_populated_toJSON (m, populate genre_id (Genres w) (movie_genres m))))"

definition all_genres :: "world \<Rightarrow> json option" where
  "all_genres w = Some (JArray (map genre_toJSON (Genres w)))"

definition all_genres_with_movies :: "world \<Rightarrow> json option" where
  "all_genres_with_movies w =
     Some (JArray (map (\<lambda>g. genre_populated_toJSON
                               (g, populate movie_id (Movies w) (genre_movies g)))
                       (Genres w)))"

definition movies_of_genre :: "string \<Rightarrow> world \<Rightarrow> json option" where
  "movies_of_genre genreId w =
     (case findOne (\<lambda>g. genre_id g = genreId) (Genres w) of
        None \<Rightarrow> None
      | Some g \<Rightarrow>
          Some (JArray (map movie_toJSON (populate movie_id (Movies w) (genre_movies g)))))"

text \<open>
  Write-invalidate for the list of movies: the request deleted \<^verbatim>\<open>movies:all\<close>,
  the key is absent afterwards, and the next GET /movies queries the database.
\<close>

definition movies_all_dropped :: "(call \<Rightarrow> bool) \<Rightarrow> world \<Rightarrow> world \<Rightarrow> bool" where
  "movies_all_dropped later w w1 =
     (RedisDel ''movies:all'' \<in> set (calls_since w w1)
      \<and> redis w1 ''movies:all'' = None
      \<and> MovieFind \<in> set (calls_since w1 (snd (get_movies later w1))))"

text \<open>
  A handler asked \<open>n\<close> times in a row and once more: the last answer is still
  404 and Redis holds what it held at the start.
\<close>

definition never_hit :: "(world \<Rightarrow> response \<times> world) \<Rightarrow> world \<Rightarrow> nat \<Rightarrow> bool" where
  "never_hit handler w n =
     (status (fst (handler (((\<lambda>w. snd (handler w)) ^^ n) w))) = 404
      \<and> redis (((\<lambda>w. snd (handler w)) ^^ n) w) = redis w)"

text \<open>
  Relation maintenance: a genre after the fan-out, compared with the same
  genre before. A referenced genre has the movie's id appended, whether or not
  it was there already; any other genre keeps its list.
\<close>

definition backlinked :: "string list \<Rightarrow> string \<Rightarrow> genre \<Rightarrow> genre \<Rightarrow> bool" where
  "backlinked gs mid g g1 =
     (genre_id g1 = genre_id g \<and> genre_name g1 = genre_name g
      \<and> genre_movies g1 =
          (if genre_id g \<in> set gs then genre_movies g @ [mid] else genre_movies g))"

text \<open>
  Failures: some call of the request threw; and the request made no further
  call after one that threw.
\<close>

definition failed :: "(call \<Rightarrow> bool) \<Rightarrow> world \<Rightarrow> world \<Rightarrow> bool" where
  "failed throws w w1 = list_ex throws (calls_since w w1)"

definition aborts :: "(call \<Rightarrow> bool) \<Rightarrow> world \<Rightarrow> world \<Rightarrow> bool" where
  "aborts throws w w1 = (\<not> list_ex throws (butlast (calls_since w w1)))"

text \<open>
  A handler that surfaces failures as 500: it answers 500 exactly when a call
  failed, and never 400. A create handler: it answers 201 when the payload is
  valid and no call failed, and 400 in every other case.
\<close>

definition surfaces_500 :: "(call \<Rightarrow> bool) \<Rightarrow> world \<Rightarrow> response \<times> world \<Rightarrow> bool" where
  "surfaces_500 throws w rw =
     (aborts throws w (snd rw)
      \<and> (status (fst rw) = 500) = failed throws w (snd rw)
      \<and> status (fst rw) \<noteq> 400)"

definition create_answers ::
  "(call \<Rightarrow> bool) \<Rightarrow> world \<Rightarrow> bool \<Rightarrow> response \<times> world \<Rightarrow> bool" where
  "create_answers throws w valid rw =
     (aborts throws w (snd rw)
      \<and> status (fst rw) = (if valid \<and> \<not> failed throws w (snd rw) then 201 else 400))"

text \<open>
  The genre scenario as four requests to the application, each on the world
  the previous one left: POST /genres, GET /genres/:id, DELETE /genres/:id,
  GET /genres/:id, where the id is the one generated for the new genre.
\<close>

definition genre_lifecycle ::
  "(call \<Rightarrow> bool) \<Rightarrow> string \<Rightarrow> 'a req_body_scheme \<Rightarrow> world \<Rightarrow> response list" where
  "genre_lifecycle throws oid b w =
     (let created = app throws oid POST [''genres''] b w;
          read = app throws oid GET [''genres'', oid] b (snd created);
          deleted = app throws oid DELETE [''genres'', oid] b (snd read);
          reread = app throws oid GET [''genres'', oid] b (snd deleted)
      in [fst created, fst read, fst deleted, fst reread])"

section \<open>Sample data\<close>

text \<open>No call fails.\<close>

definition never :: "call \<Rightarrow> bool" where
  "never c = False"

definition shawshank :: movie where
  "shawshank =
     \<lparr>movie_id = ''64fafd2832b624f30a4f4c01'',
      movie_name = ''The Shawshank Redemption'',
      movie_director = ''Frank Darabont'',
      movie_actors = [''Tim Robbins'', ''Morgan Freeman''],
      movie_imbdrating = ''9.3'',
      movie_image = Some ''https://www.example.com/movie-image.jpg'',
      movie_genres = [''64fafd2832b624f30a4f4bf7'']\<rparr>"

definition drama :: genre where
  "drama =
     \<lparr>genre_id = ''64fafd2832b624f30a4f4bf7'',
      genre_name = ''Drama'',
      genre_movies = [''64fafd2832b624f30a4f4c01'']\<rparr>"

definition world0 :: world where
  "world0 = \<lparr>Movies = [shawshank], Genres = [drama], redis = Map.empty, clock = 0, calls = []\<rparr>"

definition blank :: world where
  "blank = \<lparr>Movies = [], Genres = [], redis = Map.empty, clock = 0, calls = []\<rparr>"

text \<open>Request bodies.\<close>

definition retitle :: req_body where
  "retitle =
     \<lparr>req_name = Some ''The Shawshank Redemption (1994)'', req_director = None,
      req_actors = None, req_imbdrating = None, req_image = None, req_genres = None\<rparr>"

definition godfather :: req_body where
  "godfather =
     \<lparr>req_name = Some ''The Godfather'', req_director = Some ''Francis Ford Coppola'',
      req_actors = Some [''Marlon Brando'', ''Al Pacino''], req_imbdrating = Some ''9.2'',
      req_image = None, req_genres = Some [''64fafd2832b624f30a4f4bf7'']\<rparr>"

definition comedy :: req_body where
  "comedy =
     \<lparr>req_name = Some ''Comedy'', req_director = None,
      req_actors = None, req_imbdrating = None, req_image = None, req_genres = None\<rparr>"

definition drama_body :: req_body where
  "drama_body =
     \<lparr>req_name = Some ''Drama'', req_director = None,
      req_actors = None, req_imbdrating = None, req_image = None, req_genres = None\<rparr>"

text \<open>A body for POST /genres in which the client also sent a list of movies.\<close>

record genre_payload = req_body +
  req_movies :: "string list option"

definition drama_payload :: genre_payload where
  "drama_payload =
     \<lparr>req_name = Some ''Drama'', req_director = None,
      req_actors = None, req_imbdrating = None, req_image = None, req_genres = None,
      req_movies = Some [''64fafd2832b624f30a4f4c01'']\<rparr>"

text \<open>Worlds reached from the sample data by requests that succeed.\<close>

definition movie_read :: world where
  "movie_read = snd (get_movies_id never ''64fafd2832b624f30a4f4c01'' world0)"

definition movie_put :: world where
  "movie_put = snd (put_movies_id never ''64fafd2832b624f30a4f4c01'' retitle movie_read)"

definition movie_deleted :: world where
  "movie_deleted = snd (delete_movies_id never ''64fafd2832b624f30a4f4c01'' movie_read)"

definition movies_listed :: world where
  "movies_listed = snd (get_movies never world0)"

definition genres_listed :: world where
  "genres_listed = snd (get_genres never world0)"

text \<open>
  Single failures: the genre fan-out, the cache write of a new genre, a Redis
  lookup, a Redis delete.
\<close>

definition fan_out_fails :: "call \<Rightarrow> bool" where
  "fan_out_fails c = (c = GenreUpdateMany (Some [''64fafd2832b624f30a4f4bf7'']))"

definition setex_fails :: "call \<Rightarrow> bool" where
  "setex_fails c = (c = RedisSetex ''genre:64fafd2832b624f30a4f4bf9'' 3600)"

definition get_fails :: "call \<Rightarrow> bool" where
  "get_fails c = (c = RedisGet ''movies:all'')"

definition del_fails :: "call \<Rightarrow> bool" where
  "del_fails c = (c = RedisDel ''movies:all'')"

section \<open>Reads\<close>

lemmas prims = await_def respond_def external_def redisClient_get_def redisClient_setex_def
  redisClient_del_def Movie_find_def Movie_findById_populate_def Movie_create_def
  Movie_findByIdAndUpdate_def Movie_findByIdAndDelete_def Genre_find_def Genre_find_populate_def
  Genre_findById_populate_def Genre_create_def Genre_updateMany_def Genre_findByIdAndDelete_def
  catch_def res_json_def res_status_json_def Let_def

lemmas loaders = all_movies_def movie_by_id_def all_genres_def all_genres_with_movies_def
  movies_of_genre_def

lemma get_movies_read_through:
  assumes "\<not> throws (RedisGet ''movies:all'')" and "\<not> throws MovieFind"
    and "\<not> throws (RedisSetex ''movies:all'' 3600)"
  shows "follows_read_through (get_movies throws) ''movies:all'' MovieFind all_movies w"
  using assms
  by (simp add: follows_read_through_def get_movies_def get_movies_try_def prims loaders
      lookup_def split: option.splits)

lemma get_movies_id_read_through:
  assumes "\<not> throws (RedisGet (''movie:'' @ i))" and "\<not> throws (MovieFindById i)"
    and "\<not> throws (RedisSetex (''movie:'' @ i) 3600)"
  shows "follows_read_through (get_movies_id throws i) (''movie:'' @ i) (MovieFindById i)
           (movie_by_id i) w"
  using assms
  by (simp add: follows_read_through_def get_movies_id_def get_movies_id_try_def prims loaders
      lookup_def split: option.splits)

lemma get_genres_read_through:
  assumes "\<not> throws (RedisGet ''genres:all'')" and "\<not> throws GenreFind"
    and "\<not> throws (RedisSetex ''genres:all'' 3600)"
  shows "follows_read_through (get_genres throws) ''genres:all'' GenreFind all_genres w"
  using assms
  by (simp add: follows_read_through_def get_genres_def get_genres_try_def prims loaders
      lookup_def split: option.splits)

lemma get_genres_movies_read_through:
  assumes "\<not> throws (RedisGet ''genres:all-with-movies'')" and "\<not> throws GenreFindPopulate"
    and "\<not> throws (RedisSetex ''genres:all-with-movies'' 3600)"
  shows "follows_read_through (get_genres_movies throws) ''genres:all-with-movies''
           GenreFindPopulate all_genres_with_movies w"
  using assms
  by (simp add: follows_read_through_def get_genres_movies_def get_genres_movies_try_def prims
      loaders lookup_def comp_def split: option.splits)

lemma get_genres_genreId_movies_read_through:
  assumes "\<not> throws (RedisGet (''genre:'' @ i @ '':movies''))" and "\<not> throws (GenreFindById i)"
    and "\<not> throws (RedisSetex (''genre:'' @ i @ '':movies'') 3600)"
  shows "follows_read_through (get_genres_genreId_movies throws i) (''genre:'' @ i @ '':movies'')
           (GenreFindById i) (movies_of_genre i) w"
  using assms
  by (simp add: follows_read_through_def get_genres_genreId_movies_def
      get_genres_genreId_movies_try_def prims loaders lookup_def split: option.splits)

text \<open>
  Claim C1. When no call of the request fails, each of the five read endpoints
  follows the read-through protocol at its own key: a hit answers the parsed
  cache entry after the Redis lookup alone, with no database call; a miss
  queries the database, stores the serialised result under the key with a
  3600-second expiry and answers the result it stored (or, for the two
  by-id endpoints, answers 404 without a cache write when the database has no
  such document).
\<close>

theorem C1_read_endpoints_read_through:
  assumes "\<And>c. \<not> throws c"
  shows "follows_read_through (get_movies throws) ''movies:all'' MovieFind all_movies w
       \<and> follows_read_through (get_movies_id throws i) (''movie:'' @ i) (MovieFindById i)
           (movie_by_id i) w
       \<and> follows_read_through (get_genres throws) ''genres:all'' GenreFind all_genres w
       \<and> follows_read_through (get_genres_movies throws) ''genres:all-with-movies''
           GenreFindPopulate all_genres_with_movies w
       \<and> follows_read_through (get_genres_genreId_movies throws g) (''genre:'' @ g @ '':movies'')
           (GenreFindById g) (movies_of_genre g) w"
  by (intro conjI get_movies_read_through get_movies_id_read_through get_genres_read_through
      get_genres_movies_read_through get_genres_genreId_movies_read_through assms)

text \<open>
  On the sample data with an empty cache, GET /movies misses and fills
  \<^verbatim>\<open>movies:all\<close>; asked again, it answers from the cache with one Redis lookup.
\<close>

theorem C1_read_endpoints_read_through_witness:
  "lookup world0 ''movies:all'' = None
   \<and> get_movies never world0 =
       (res_json (JArray [movie_toJSON shawshank]),
        world0\<lparr>calls := [RedisGet ''movies:all'', MovieFind, RedisSetex ''movies:all'' 3600],
               redis := [''movies:all'' \<mapsto> (3600, Text (JArray [movie_toJSON shawshank]))]\<rparr>)
   \<and> get_movies never (snd (get_movies never world0)) =
       (res_json (JArray [movie_toJSON shawshank]),
        world0\<lparr>calls := [RedisGet ''movies:all'', MovieFind, RedisSetex ''movies:all'' 3600,
                         RedisGet ''movies:all''],
               redis := [''movies:all'' \<mapsto> (3600, Text (JArray [movie_toJSON shawshank]))]\<rparr>)"
proof -
  have ok: "\<And>c. \<not> never c"
    by (simp add: never_def)
  have miss: "lookup world0 ''movies:all'' = None"
    by (simp add: lookup_def world0_def)
  have first: "get_movies never world0 =
       (res_json (JArray [movie_toJSON shawshank]),
        world0\<lparr>calls := [RedisGet ''movies:all'', MovieFind, RedisSetex ''movies:all'' 3600],
               redis := [''movies:all'' \<mapsto> (3600, Text (JArray [movie_toJSON shawshank]))]\<rparr>)"
    using C1_read_endpoints_read_through [OF ok, where w = world0] miss
    by (simp add: follows_read_through_def all_movies_def world0_def)
  have "get_movies never (snd (get_movies never world0)) =
       (res_json (JArray [movie_toJSON shawshank]),
        world0\<lparr>calls := [RedisGet ''movies:all'', MovieFind, RedisSetex ''movies:all'' 3600,
                         RedisGet ''movies:all''],
               redis := [''movies:all'' \<mapsto> (3600, Text (JArray [movie_toJSON shawshank]))]\<rparr>)"
    using C1_read_endpoints_read_through [OF ok, where w = "snd (get_movies never world0)"]
    unfolding first
    by (simp add: follows_read_through_def lookup_def world0_def)
  with miss first show ?thesis
    by simp
qed

section \<open>Writes\<close>

lemmas handlers = get_movies_def get_movies_try_def get_movies_id_def get_movies_id_try_def
  post_movies_def post_movies_try_def put_movies_id_def put_movies_id_try_def
  delete_movies_id_def delete_movies_id_try_def get_genres_def get_genres_try_def
  get_genres_movies_def get_genres_movies_try_def get_genres_genreId_movies_def
  get_genres_genreId_movies_try_def post_genres_def post_genres_try_def
  delete_genres_genreId_def delete_genres_genreId_try_def

lemmas samples = world0_def shawshank_def drama_def never_def

lemma never_throws: "\<not> never c"
  by (simp add: never_def)

lemma lookup_calls [simp]: "lookup (w\<lparr>calls := cs\<rparr>) key = lookup w key"
  by (simp add: lookup_def split: option.splits)

lemma lookup_same_cache:
  "redis w1 = redis w \<Longrightarrow> clock w1 = clock w \<Longrightarrow> lookup w1 key = lookup w key"
  by (simp add: lookup_def split: option.splits)

lemma findOne_Some: "findOne P xs = Some x \<Longrightarrow> P x"
  by (induction xs) (auto split: if_splits)

lemma findOne_append_new: "P x \<Longrightarrow> findOne P (xs @ [x]) \<noteq> None"
  by (induction xs) simp_all

lemma get_movies_hit:
  "lookup w ''movies:all'' = Some t \<Longrightarrow> \<not> later (RedisGet ''movies:all'')
   \<Longrightarrow> fst (get_movies later w) = res_json (JSON_parse t)"
  by (simp add: handlers prims)

lemma movie_read_eq:
  "movie_read =
     world0\<lparr>calls := [RedisGet ''movie:64fafd2832b624f30a4f4c01'',
                       MovieFindById ''64fafd2832b624f30a4f4c01'',
                       RedisSetex ''movie:64fafd2832b624f30a4f4c01'' 3600],
            redis := [''movie:64fafd2832b624f30a4f4c01'' \<mapsto>
                        (3600, Text (movie_populated_toJSON (shawshank, [drama])))]\<rparr>"
  by (simp add: movie_read_def handlers prims lookup_def samples)

subsection \<open>The single-movie entry\<close>

text \<open>
  Neither PUT /movies/:id nor DELETE /movies/:id writes or deletes any
  \<^verbatim>\<open>movie:<id>\<close> key, whatever happens during the request.
\<close>

lemma put_movies_id_keeps_movie_entries:
  "redis (snd (put_movies_id throws i b w)) (''movie:'' @ j) = redis w (''movie:'' @ j)"
  by (simp add: handlers prims split: option.splits)

lemma delete_movies_id_keeps_movie_entries:
  "redis (snd (delete_movies_id throws i w)) (''movie:'' @ j) = redis w (''movie:'' @ j)"
  by (simp add: handlers prims split: option.splits)

text \<open>
  Claim C2. Write paths are to invalidate or refresh the keys they make stale,
  so that \<^verbatim>\<open>movie:<id>\<close> is not served with its pre-write snapshot after a
  successful PUT. The handler does not do so: on the sample data, once the
  movie has been read (and so cached under its key), a PUT that renames it
  answers 200 and changes the stored name, and the next GET /movies/:id still
  answers the snapshot taken before the PUT, with the old name.
\<close>

theorem C2_put_leaves_stale_movie_entry:
  "status (fst (put_movies_id never ''64fafd2832b624f30a4f4c01'' retitle movie_read)) = 200
   \<and> map movie_name (Movies movie_put) = [''The Shawshank Redemption (1994)'']
   \<and> fst (get_movies_id never ''64fafd2832b624f30a4f4c01'' movie_put) =
       res_json (movie_populated_toJSON (shawshank, [drama]))
   \<and> movie_name shawshank = ''The Shawshank Redemption''"
  unfolding movie_put_def movie_read_eq
  by (simp add: handlers prims lookup_def samples retitle_def apply_update_def or_else_def
      or_empty_def push_movie_def)

subsection \<open>The list of movies\<close>

text \<open>
  A create that reaches the database and then fails in the genre fan-out: with
  \<^verbatim>\<open>movies:all\<close> cached, POST /movies stores the new movie, makes no call to
  delete the key, and leaves the entry, which lists one movie, in place. And a
  delete whose database call succeeds while Redis refuses the delete of the
  key: the movie is gone from the database, the handler answers 500, and the
  entry that lists it is still there.
\<close>

theorem C3_create_without_invalidation:
  "lookup movies_listed ''movies:all'' = Some (Text (JArray [movie_toJSON shawshank]))
   \<and> valid_movie godfather
   \<and> \<not> fan_out_fails (MovieCreate ''64fafd2832b624f30a4f4c02'')
   \<and> map movie_name
        (Movies (snd (post_movies fan_out_fails ''64fafd2832b624f30a4f4c02'' godfather
                        movies_listed)))
       = [''The Shawshank Redemption'', ''The Godfather'']
   \<and> lookup (snd (post_movies fan_out_fails ''64fafd2832b624f30a4f4c02'' godfather
                     movies_listed)) ''movies:all''
       = Some (Text (JArray [movie_toJSON shawshank]))
   \<and> RedisDel ''movies:all''
       \<notin> set (calls_since movies_listed
                 (snd (post_movies fan_out_fails ''64fafd2832b624f30a4f4c02'' godfather
                         movies_listed)))
   \<and> \<not> del_fails (MovieFindByIdAndDelete ''64fafd2832b624f30a4f4c01'')
   \<and> Movies (snd (delete_movies_id del_fails ''64fafd2832b624f30a4f4c01'' movies_listed)) = []
   \<and> status (fst (delete_movies_id del_fails ''64fafd2832b624f30a4f4c01'' movies_listed)) = 500
   \<and> lookup (snd (delete_movies_id del_fails ''64fafd2832b624f30a4f4c01'' movies_listed))
        ''movies:all''
       = Some (Text (JArray [movie_toJSON shawshank]))"
  by (simp add: movies_listed_def handlers prims lookup_def samples godfather_def
      fan_out_fails_def del_fails_def valid_movie_def required_def or_empty_def or_else_def
      new_movie_def calls_since_def)

lemma requery:
  "\<not> later (RedisGet ''movies:all'') \<Longrightarrow> redis w1 ''movies:all'' = None
   \<Longrightarrow> MovieFind \<in> set (calls_since w1 (snd (get_movies later w1)))"
  by (simp add: handlers prims lookup_def calls_since_def)

lemma post_movies_dropped:
  "\<not> later (RedisGet ''movies:all'') \<Longrightarrow> status (fst (post_movies throws oid b w)) = 201
   \<Longrightarrow> movies_all_dropped later w (snd (post_movies throws oid b w))"
  unfolding movies_all_dropped_def
  apply (intro conjI requery)
     apply (simp_all add: handlers prims calls_since_def split: if_splits)
  done

lemma put_movies_id_dropped:
  "\<not> later (RedisGet ''movies:all'') \<Longrightarrow> status (fst (put_movies_id throws i b w)) = 200
   \<Longrightarrow> movies_all_dropped later w (snd (put_movies_id throws i b w))"
  unfolding movies_all_dropped_def
  apply (intro conjI requery)
     apply (simp_all add: handlers prims calls_since_def split: if_splits option.splits)
  done

lemma delete_movies_id_dropped:
  "\<not> later (RedisGet ''movies:all'') \<Longrightarrow> status (fst (delete_movies_id throws i w)) = 200
   \<Longrightarrow> movies_all_dropped later w (snd (delete_movies_id throws i w))"
  unfolding movies_all_dropped_def
  apply (intro conjI requery)
     apply (simp_all add: handlers prims calls_since_def split: if_splits option.splits)
  done

text \<open>
  Claim C3, for requests that succeed. Whenever a create, update or delete of a movie answers
  with its success status (201 for POST, 200 for PUT and DELETE), which it does
  only if every database call and the cache delete succeeded, the request has
  deleted \<^verbatim>\<open>movies:all\<close>, the key is absent in the world it leaves, and the next
  GET /movies, if its Redis lookup does not fail, queries the database.
\<close>

theorem C3_success_invalidates_movies_all:
  assumes "\<not> later (RedisGet ''movies:all'')"
  shows "(status (fst (post_movies throws oid b w)) = 201
          \<longrightarrow> movies_all_dropped later w (snd (post_movies throws oid b w)))
       \<and> (status (fst (put_movies_id throws i b w)) = 200
          \<longrightarrow> movies_all_dropped later w (snd (put_movies_id throws i b w)))
       \<and> (status (fst (delete_movies_id throws i w)) = 200
          \<longrightarrow> movies_all_dropped later w (snd (delete_movies_id throws i w)))"
  using assms
  by (simp add: post_movies_dropped put_movies_id_dropped delete_movies_id_dropped)

text \<open>
  With \<^verbatim>\<open>movies:all\<close> cached and nothing failing, each of the three writes
  succeeds on the sample data and drops the key.
\<close>

theorem C3_success_invalidates_movies_all_witness:
  "\<not> never (RedisGet ''movies:all'')
   \<and> status (fst (post_movies never ''64fafd2832b624f30a4f4c02'' godfather movies_listed)) = 201
   \<and> movies_all_dropped never movies_listed
        (snd (post_movies never ''64fafd2832b624f30a4f4c02'' godfather movies_listed))
   \<and> status (fst (put_movies_id never ''64fafd2832b624f30a4f4c01'' godfather movies_listed)) = 200
   \<and> movies_all_dropped never movies_listed
        (snd (put_movies_id never ''64fafd2832b624f30a4f4c01'' godfather movies_listed))
   \<and> status (fst (delete_movies_id never ''64fafd2832b624f30a4f4c01'' movies_listed)) = 200
   \<and> movies_all_dropped never movies_listed
        (snd (delete_movies_id never ''64fafd2832b624f30a4f4c01'' movies_listed))"
proof -
  have created:
    "status (fst (post_movies never ''64fafd2832b624f30a4f4c02'' godfather movies_listed)) = 201"
    by (simp add: movies_listed_def handlers prims lookup_def samples godfather_def
        valid_movie_def required_def or_empty_def)
  have updated:
    "status (fst (put_movies_id never ''64fafd2832b624f30a4f4c01'' godfather movies_listed)) = 200"
    by (simp add: movies_listed_def handlers prims lookup_def samples)
  have deleted:
    "status (fst (delete_movies_id never ''64fafd2832b624f30a4f4c01'' movies_listed)) = 200"
    by (simp add: movies_listed_def handlers prims lookup_def samples)
  show ?thesis
    using created updated deleted
      C3_success_invalidates_movies_all [where later = never and throws = never
        and oid = "''64fafd2832b624f30a4f4c02''" and b = godfather and w = movies_listed
        and i = "''64fafd2832b624f30a4f4c01''", OF never_throws]
    by (simp add: never_throws)
qed

subsection \<open>The lists of genres\<close>

text \<open>
  Neither write on genres touches \<^verbatim>\<open>genres:all\<close> or
  \<^verbatim>\<open>genres:all-with-movies\<close>.
\<close>

lemma post_genres_keeps_collection_entries:
  "redis (snd (post_genres throws oid b w)) ''genres:all'' = redis w ''genres:all''
   \<and> redis (snd (post_genres throws oid b w)) ''genres:all-with-movies''
       = redis w ''genres:all-with-movies''"
  by (simp add: handlers prims new_genre_def)

lemma delete_genres_genreId_keeps_collection_entries:
  "redis (snd (delete_genres_genreId throws i w)) ''genres:all'' = redis w ''genres:all''
   \<and> redis (snd (delete_genres_genreId throws i w)) ''genres:all-with-movies''
       = redis w ''genres:all-with-movies''"
  by (simp add: handlers prims split: option.splits)

text \<open>
  Claim C4. Every write on the genre collection is to invalidate
  \<^verbatim>\<open>genres:all\<close> and \<^verbatim>\<open>genres:all-with-movies\<close>. The handlers do not: on the
  sample data with \<^verbatim>\<open>genres:all\<close> cached, POST /genres answers 201 and the
  database then holds two genres, while GET /genres still answers the cached
  list of one; DELETE /genres/:genreId answers 200 and empties the collection,
  while GET /genres still lists the deleted genre.
\<close>

theorem C4_genre_writes_leave_genres_all:
  "status (fst (post_genres never ''64fafd2832b624f30a4f4bf9'' comedy genres_listed)) = 201
   \<and> map genre_name
        (Genres (snd (post_genres never ''64fafd2832b624f30a4f4bf9'' comedy genres_listed)))
       = [''Drama'', ''Comedy'']
   \<and> fst (get_genres never
             (snd (post_genres never ''64fafd2832b624f30a4f4bf9'' comedy genres_listed)))
       = res_json (JArray [genre_toJSON drama])
   \<and> status (fst (delete_genres_genreId never ''64fafd2832b624f30a4f4bf7'' genres_listed)) = 200
   \<and> Genres (snd (delete_genres_genreId never ''64fafd2832b624f30a4f4bf7'' genres_listed)) = []
   \<and> fst (get_genres never
             (snd (delete_genres_genreId never ''64fafd2832b624f30a4f4bf7'' genres_listed)))
       = res_json (JArray [genre_toJSON drama])"
  by (simp add: genres_listed_def handlers prims lookup_def samples comedy_def required_def
      new_genre_def or_else_def)

section \<open>Not found\<close>

text \<open>
  A movie that was read, then deleted: the database holds no movie at all, the
  delete answered 200, and GET /movies/:id for the deleted id answers 200 with
  the cached document.
\<close>

theorem C5_deleted_movie_still_served:
  "Movies movie_deleted = []
   \<and> status (fst (delete_movies_id never ''64fafd2832b624f30a4f4c01'' movie_read)) = 200
   \<and> fst (get_movies_id never ''64fafd2832b624f30a4f4c01'' movie_deleted) =
       res_json (movie_populated_toJSON (shawshank, [drama]))"
  unfolding movie_deleted_def movie_read_eq
  by (simp add: handlers prims lookup_def samples)

lemma get_movies_id_not_found:
  assumes "findOne (\<lambda>m. movie_id m = i) (Movies w) = None" and "lookup w (''movie:'' @ i) = None"
    and "\<not> throws (RedisGet (''movie:'' @ i))" and "\<not> throws (MovieFindById i)"
  shows "get_movies_id throws i w =
     (res_status_json 404 (JObject [(''error'', JString ''Movie not found'')]),
      w\<lparr>calls := calls w @ [RedisGet (''movie:'' @ i), MovieFindById i]\<rparr>)"
  using assms by (simp add: handlers prims)

lemma get_movies_id_not_found_funpow:
  assumes "findOne (\<lambda>m. movie_id m = i) (Movies w) = None" and "lookup w (''movie:'' @ i) = None"
    and "\<not> throws (RedisGet (''movie:'' @ i))" and "\<not> throws (MovieFindById i)"
  shows "\<exists>cs. ((\<lambda>w. snd (get_movies_id throws i w)) ^^ n) w = w\<lparr>calls := cs\<rparr>"
proof (induction n)
  case 0
  have "w = w\<lparr>calls := calls w\<rparr>" by simp
  then show ?case by (metis funpow_0)
next
  case (Suc n)
  then obtain cs where cs: "((\<lambda>w. snd (get_movies_id throws i w)) ^^ n) w = w\<lparr>calls := cs\<rparr>"
    by blast
  have "findOne (\<lambda>m. movie_id m = i) (Movies (w\<lparr>calls := cs\<rparr>)) = None"
    and "lookup (w\<lparr>calls := cs\<rparr>) (''movie:'' @ i) = None"
    using assms by simp_all
  from get_movies_id_not_found [OF this assms(3,4)] cs show ?case
    by (simp, blast)
qed

lemma get_genres_genreId_movies_not_found:
  assumes "findOne (\<lambda>g. genre_id g = i) (Genres w) = None"
    and "lookup w (''genre:'' @ i @ '':movies'') = None"
    and "\<not> throws (RedisGet (''genre:'' @ i @ '':movies''))" and "\<not> throws (GenreFindById i)"
  shows "get_genres_genreId_movies throws i w =
     (res_status_json 404 (JObject [(''error'', JString ''Genre not found'')]),
      w\<lparr>calls := calls w @ [RedisGet (''genre:'' @ i @ '':movies''), GenreFindById i]\<rparr>)"
  using assms by (simp add: handlers prims)

lemma get_genres_genreId_movies_not_found_funpow:
  assumes "findOne (\<lambda>g. genre_id g = i) (Genres w) = None"
    and "lookup w (''genre:'' @ i @ '':movies'') = None"
    and "\<not> throws (RedisGet (''genre:'' @ i @ '':movies''))" and "\<not> throws (GenreFindById i)"
  shows "\<exists>cs. ((\<lambda>w. snd (get_genres_genreId_movies throws i w)) ^^ n) w = w\<lparr>calls := cs\<rparr>"
proof (induction n)
  case 0
  have "w = w\<lparr>calls := calls w\<rparr>" by simp
  then show ?case by (metis funpow_0)
next
  case (Suc n)
  then obtain cs where
    cs: "((\<lambda>w. snd (get_genres_genreId_movies throws i w)) ^^ n) w = w\<lparr>calls := cs\<rparr>"
    by blast
  have "findOne (\<lambda>g. genre_id g = i) (Genres (w\<lparr>calls := cs\<rparr>)) = None"
    and "lookup (w\<lparr>calls := cs\<rparr>) (''genre:'' @ i @ '':movies'') = None"
    using assms by simp_all
  from get_genres_genreId_movies_not_found [OF this assms(3,4)] cs show ?case
    by (simp, blast)
qed

text \<open>
  Claim C5, for ids without a live cache entry. For every id with no document in the database and no live
  cache entry under the endpoint's key, when no call fails, GET /movies/:id
  and GET /genres/:genreId/movies answer 404 however often they are asked and
  leave Redis as it was: not-found is never cached, and repeated calls never
  turn into cache hits.
\<close>

theorem C5_not_found_is_not_cached:
  assumes "\<And>c. \<not> throws c"
  shows "(findOne (\<lambda>m. movie_id m = i) (Movies w) = None \<and> lookup w (''movie:'' @ i) = None
          \<longrightarrow> never_hit (get_movies_id throws i) w n)
       \<and> (findOne (\<lambda>g. genre_id g = i) (Genres w) = None
            \<and> lookup w (''genre:'' @ i @ '':movies'') = None
          \<longrightarrow> never_hit (get_genres_genreId_movies throws i) w n)"
proof (intro conjI impI; elim conjE)
  have nt: "\<not> throws c" for c
    using assms .
  assume a: "findOne (\<lambda>m. movie_id m = i) (Movies w) = None" "lookup w (''movie:'' @ i) = None"
  obtain cs where cs: "((\<lambda>w. snd (get_movies_id throws i w)) ^^ n) w = w\<lparr>calls := cs\<rparr>"
    using get_movies_id_not_found_funpow [where throws = throws, OF a nt nt] by blast
  have "findOne (\<lambda>m. movie_id m = i) (Movies (w\<lparr>calls := cs\<rparr>)) = None"
    and "lookup (w\<lparr>calls := cs\<rparr>) (''movie:'' @ i) = None"
    using a by simp_all
  from get_movies_id_not_found [where throws = throws, OF this nt nt] cs
  show "never_hit (get_movies_id throws i) w n"
    by (simp add: never_hit_def res_status_json_def)
next
  have nt: "\<not> throws c" for c
    using assms .
  assume a: "findOne (\<lambda>g. genre_id g = i) (Genres w) = None"
    "lookup w (''genre:'' @ i @ '':movies'') = None"
  obtain cs where
    cs: "((\<lambda>w. snd (get_genres_genreId_movies throws i w)) ^^ n) w = w\<lparr>calls := cs\<rparr>"
    using get_genres_genreId_movies_not_found_funpow [where throws = throws, OF a nt nt] by blast
  have "findOne (\<lambda>g. genre_id g = i) (Genres (w\<lparr>calls := cs\<rparr>)) = None"
    and "lookup (w\<lparr>calls := cs\<rparr>) (''genre:'' @ i @ '':movies'') = None"
    using a by simp_all
  from get_genres_genreId_movies_not_found [where throws = throws, OF this nt nt] cs
  show "never_hit (get_genres_genreId_movies throws i) w n"
    by (simp add: never_hit_def res_status_json_def)
qed

text \<open>
  An id that names neither a movie nor a genre of the sample data, asked for
  three times and once more.
\<close>

theorem C5_not_found_is_not_cached_witness:
  "findOne (\<lambda>m. movie_id m = ''64fafd2832b624f30a4f4c09'') (Movies world0) = None
   \<and> lookup world0 ''movie:64fafd2832b624f30a4f4c09'' = None
   \<and> never_hit (get_movies_id never ''64fafd2832b624f30a4f4c09'') world0 3
   \<and> findOne (\<lambda>g. genre_id g = ''64fafd2832b624f30a4f4c09'') (Genres world0) = None
   \<and> lookup world0 ''genre:64fafd2832b624f30a4f4c09:movies'' = None
   \<and> never_hit (get_genres_genreId_movies never ''64fafd2832b624f30a4f4c09'') world0 3"
  using C5_not_found_is_not_cached [where throws = never
      and i = "''64fafd2832b624f30a4f4c09''" and w = world0 and n = 3, OF never_throws]
  by (simp add: lookup_def samples)

section \<open>Relation maintenance\<close>

lemma backlinked_push: "list_all2 (backlinked gs mid) xs (map (push_movie gs mid) xs)"
  by (induction xs) (simp_all add: backlinked_def push_movie_def)

text \<open>
  A movie stored while the fan-out fails: on the sample data, POST /movies with
  the genre Drama in its list stores the new movie, and PUT /movies/:id with
  the same list rewrites the stored one, yet with \<^verbatim>\<open>Genre.updateMany\<close>
  throwing the genre Drama lists what it listed before and gets no id appended.
\<close>

theorem C6_movie_stored_without_backlink:
  "req_genres godfather = Some [''64fafd2832b624f30a4f4bf7'']
   \<and> valid_movie godfather
   \<and> map genre_id (Genres world0) = [''64fafd2832b624f30a4f4bf7'']
   \<and> map genre_movies (Genres world0) = [[''64fafd2832b624f30a4f4c01'']]
   \<and> \<not> fan_out_fails (MovieCreate ''64fafd2832b624f30a4f4c02'')
   \<and> map movie_id
        (Movies (snd (post_movies fan_out_fails ''64fafd2832b624f30a4f4c02'' godfather world0)))
       = [''64fafd2832b624f30a4f4c01'', ''64fafd2832b624f30a4f4c02'']
   \<and> map genre_movies
        (Genres (snd (post_movies fan_out_fails ''64fafd2832b624f30a4f4c02'' godfather world0)))
       = [[''64fafd2832b624f30a4f4c01'']]
   \<and> \<not> fan_out_fails (MovieFindByIdAndUpdate ''64fafd2832b624f30a4f4c01'')
   \<and> map movie_name
        (Movies (snd (put_movies_id fan_out_fails ''64fafd2832b624f30a4f4c01'' godfather world0)))
       = [''The Godfather'']
   \<and> map genre_movies
        (Genres (snd (put_movies_id fan_out_fails ''64fafd2832b624f30a4f4c01'' godfather world0)))
       = [[''64fafd2832b624f30a4f4c01'']]"
  by (simp add: handlers prims samples godfather_def fan_out_fails_def valid_movie_def
      required_def or_empty_def or_else_def new_movie_def apply_update_def)

text \<open>
  Claim C6, when the fan-out does not fail. When POST /movies creates a movie,
  or PUT /movies/:id updates one, with a list of genre ids in the body, and
  the fan-out update \<^verbatim>\<open>Genre.updateMany\<close> does not fail, every stored genre
  whose id is in the list has the movie's id appended to its movies, present
  there already or not, and every other genre keeps its list: nothing is
  deduplicated and nothing is removed.
\<close>

theorem C6_fan_out_appends_movie_id:
  assumes "req_genres b = Some gs" and "\<not> throws (GenreUpdateMany (Some gs))"
  shows "(valid_movie b \<and> \<not> throws (MovieCreate oid)
          \<longrightarrow> list_all2 (backlinked gs oid) (Genres w)
                (Genres (snd (post_movies throws oid b w))))
       \<and> (findOne (\<lambda>m. movie_id m = i) (Movies w) \<noteq> None
            \<and> \<not> throws (MovieFindByIdAndUpdate i)
          \<longrightarrow> list_all2 (backlinked gs i) (Genres w)
                (Genres (snd (put_movies_id throws i b w))))"
proof (intro conjI impI; elim conjE)
  assume "valid_movie b" and "\<not> throws (MovieCreate oid)"
  then have "Genres (snd (post_movies throws oid b w)) = map (push_movie gs oid) (Genres w)"
    using assms by (simp add: handlers prims new_movie_def or_empty_def)
  then show "list_all2 (backlinked gs oid) (Genres w) (Genres (snd (post_movies throws oid b w)))"
    by (simp add: backlinked_push)
next
  assume found: "findOne (\<lambda>m. movie_id m = i) (Movies w) \<noteq> None"
    and ok: "\<not> throws (MovieFindByIdAndUpdate i)"
  then obtain m where m: "findOne (\<lambda>m. movie_id m = i) (Movies w) = Some m"
    by blast
  then have "movie_id m = i"
    by (rule findOne_Some)
  then have "Genres (snd (put_movies_id throws i b w)) = map (push_movie gs i) (Genres w)"
    using assms ok m by (simp add: handlers prims apply_update_def or_empty_def)
  then show "list_all2 (backlinked gs i) (Genres w) (Genres (snd (put_movies_id throws i b w)))"
    by (simp add: backlinked_push)
qed

text \<open>
  On the sample data the genre Drama lists the one stored movie. Creating a
  second movie in that genre appends its id; updating the first movie with the
  same genre appends the first movie's id a second time.
\<close>

theorem C6_fan_out_appends_movie_id_witness:
  "req_genres godfather = Some [''64fafd2832b624f30a4f4bf7'']
   \<and> valid_movie godfather
   \<and> findOne (\<lambda>m. movie_id m = ''64fafd2832b624f30a4f4c01'') (Movies world0) \<noteq> None
   \<and> map genre_movies (Genres world0) = [[''64fafd2832b624f30a4f4c01'']]
   \<and> map genre_movies
        (Genres (snd (post_movies never ''64fafd2832b624f30a4f4c02'' godfather world0)))
       = [[''64fafd2832b624f30a4f4c01'', ''64fafd2832b624f30a4f4c02'']]
   \<and> map genre_movies
        (Genres (snd (put_movies_id never ''64fafd2832b624f30a4f4c01'' godfather world0)))
       = [[''64fafd2832b624f30a4f4c01'', ''64fafd2832b624f30a4f4c01'']]"
proof -
  have genres: "req_genres godfather = Some [''64fafd2832b624f30a4f4bf7'']"
    by (simp add: godfather_def)
  have valid: "valid_movie godfather"
    by (simp add: godfather_def valid_movie_def required_def or_empty_def)
  have found: "findOne (\<lambda>m. movie_id m = ''64fafd2832b624f30a4f4c01'') (Movies world0) \<noteq> None"
    by (simp add: samples)
  have before: "Genres world0 = [drama]"
    by (simp add: world0_def)
  show ?thesis
    using genres valid found
      C6_fan_out_appends_movie_id [where throws = never and b = godfather and w = world0
        and oid = "''64fafd2832b624f30a4f4c02''" and i = "''64fafd2832b624f30a4f4c01''",
        OF genres never_throws]
    by (auto simp add: never_throws before list_all2_Cons1 backlinked_def drama_def)
qed

section \<open>Failures\<close>

text \<open>
  POST /genres with a valid payload while Redis refuses the write of the new
  genre: what reaches the \<^verbatim>\<open>catch\<close> is the failure of the cache call, and the
  handler answers 400.
\<close>

theorem C7_create_answers_400_on_cache_failure:
  "required (req_name comedy)
   \<and> fst (post_genres_try setex_fails ''64fafd2832b624f30a4f4bf9'' comedy world0)
       = Inl (Failure (RedisSetex ''genre:64fafd2832b624f30a4f4bf9'' 3600))
   \<and> fst (post_genres setex_fails ''64fafd2832b624f30a4f4bf9'' comedy world0)
       = res_status_json 400 (JObject [(''error'', JString ''Invalid data'')])"
  by (simp add: handlers prims comedy_def required_def setex_fails_def new_genre_def or_else_def)

lemmas failures = surfaces_500_def create_answers_def aborts_def failed_def calls_since_def

lemma get_movies_500: "surfaces_500 throws w (get_movies throws w)"
  by (simp add: failures handlers prims split: option.splits)

lemma get_movies_id_500: "surfaces_500 throws w (get_movies_id throws i w)"
  by (simp add: failures handlers prims split: option.splits)

lemma put_movies_id_500: "surfaces_500 throws w (put_movies_id throws i b w)"
  by (simp add: failures handlers prims split: option.splits)

lemma delete_movies_id_500: "surfaces_500 throws w (delete_movies_id throws i w)"
  by (simp add: failures handlers prims split: option.splits)

lemma get_genres_500: "surfaces_500 throws w (get_genres throws w)"
  by (simp add: failures handlers prims split: option.splits)

lemma get_genres_movies_500: "surfaces_500 throws w (get_genres_movies throws w)"
  by (simp add: failures handlers prims split: option.splits)

lemma get_genres_genreId_movies_500:
  "surfaces_500 throws w (get_genres_genreId_movies throws g w)"
  by (simp add: failures handlers prims split: option.splits)

lemma delete_genres_genreId_500: "surfaces_500 throws w (delete_genres_genreId throws g w)"
  by (simp add: failures handlers prims split: option.splits)

lemma post_movies_answers:
  "create_answers throws w (valid_movie b) (post_movies throws oid b w)"
  by (simp add: failures handlers prims split: option.splits)

lemma post_genres_answers:
  "create_answers throws w (required (req_name b)) (post_genres throws oid b w)"
  by (simp add: failures handlers prims split: option.splits)

text \<open>
  Claim C7, with the answer the create handlers give. The two create handlers answer 201 when the payload is
  valid and no call fails, and 400 otherwise: for an invalid payload and
  equally for every failure of a database or Redis call during the create.
  Every other handler answers 500 exactly when one of its calls failed, and
  never 400. In all ten handlers a failed call is the last call the request
  makes.
\<close>

theorem C7_failure_responses:
  "create_answers throws w (valid_movie b) (post_movies throws oid b w)
   \<and> create_answers throws w (required (req_name b)) (post_genres throws oid b w)
   \<and> surfaces_500 throws w (get_movies throws w)
   \<and> surfaces_500 throws w (get_movies_id throws i w)
   \<and> surfaces_500 throws w (put_movies_id throws i b w)
   \<and> surfaces_500 throws w (delete_movies_id throws i w)
   \<and> surfaces_500 throws w (get_genres throws w)
   \<and> surfaces_500 throws w (get_genres_movies throws w)
   \<and> surfaces_500 throws w (get_genres_genreId_movies throws g w)
   \<and> surfaces_500 throws w (delete_genres_genreId throws g w)"
  by (intro conjI post_movies_answers post_genres_answers get_movies_500 get_movies_id_500
      put_movies_id_500 delete_movies_id_500 get_genres_500 get_genres_movies_500
      get_genres_genreId_movies_500 delete_genres_genreId_500)

text \<open>
  With Redis refusing the lookup of \<^verbatim>\<open>movies:all\<close>, GET /movies answers 500
  after that one call; with Redis refusing the write of the new genre,
  POST /genres answers 400 for a valid payload.
\<close>

theorem C7_failure_responses_witness:
  "status (fst (get_movies get_fails world0)) = 500
   \<and> calls_since world0 (snd (get_movies get_fails world0)) = [RedisGet ''movies:all'']
   \<and> required (req_name comedy)
   \<and> status (fst (post_genres setex_fails ''64fafd2832b624f30a4f4bf9'' comedy world0)) = 400"
proof -
  have made: "calls_since world0 (snd (get_movies get_fails world0)) = [RedisGet ''movies:all'']"
    by (simp add: calls_since_def handlers prims get_fails_def world0_def)
  have made2:
    "calls_since world0 (snd (post_genres setex_fails ''64fafd2832b624f30a4f4bf9'' comedy world0))
      = [GenreCreate ''64fafd2832b624f30a4f4bf9'',
         RedisSetex ''genre:64fafd2832b624f30a4f4bf9'' 3600]"
    by (simp add: calls_since_def handlers prims setex_fails_def world0_def comedy_def
        required_def new_genre_def)
  have valid: "required (req_name comedy)"
    by (simp add: comedy_def required_def)
  show ?thesis
    using made made2 valid
      C7_failure_responses [where throws = get_fails and w = world0 and b = comedy
        and oid = "''64fafd2832b624f30a4f4bf9''" and i = "''64fafd2832b624f30a4f4c01''"
        and g = "''64fafd2832b624f30a4f4bf7''"]
      C7_failure_responses [where throws = setex_fails and w = world0 and b = comedy
        and oid = "''64fafd2832b624f30a4f4bf9''" and i = "''64fafd2832b624f30a4f4c01''"
        and g = "''64fafd2832b624f30a4f4bf7''"]
    by (simp add: surfaces_500_def create_answers_def failed_def aborts_def get_fails_def
        setex_fails_def)
qed

lemma lookup_after_fan_out_failure:
  assumes "valid_movie b" and "\<not> throws (MovieCreate oid)"
    and "throws (GenreUpdateMany (req_genres b))"
  shows "post_movies throws oid b w =
           (res_status_json 400 (JObject [(''error'', JString ''Invalid data'')]),
            w\<lparr>Movies := Movies w @ [new_movie oid b],
              calls := calls w @ [MovieCreate oid, GenreUpdateMany (req_genres b)]\<rparr>)"
  using assms by (simp add: handlers prims new_movie_def)

text \<open>
  Claim C9. Whenever POST /movies gets its movie stored and the genre fan-out
  then fails, the handler answers 400 'Invalid data'; the world it leaves has
  the new movie in the database, the same Redis contents, and two calls made,
  neither of them a delete of \<^verbatim>\<open>movies:all\<close>. An entry under \<^verbatim>\<open>movies:all\<close>
  that is live \<open>d\<close> seconds later is still what GET /movies answers then,
  although the database lists one movie more.
\<close>

theorem C9_fan_out_failure_keeps_movies_all:
  assumes "valid_movie b" and "\<not> throws (MovieCreate oid)"
    and "throws (GenreUpdateMany (req_genres b))"
  shows "post_movies throws oid b w =
           (res_status_json 400 (JObject [(''error'', JString ''Invalid data'')]),
            w\<lparr>Movies := Movies w @ [new_movie oid b],
              calls := calls w @ [MovieCreate oid, GenreUpdateMany (req_genres b)]\<rparr>)
       \<and> (lookup (advance d w) ''movies:all'' = Some t \<and> \<not> later (RedisGet ''movies:all'')
          \<longrightarrow> fst (get_movies later (advance d (snd (post_movies throws oid b w))))
                = res_json (JSON_parse t))"
proof -
  note post = lookup_after_fan_out_failure [OF assms, of w]
  have "fst (get_movies later (advance d (snd (post_movies throws oid b w))))
          = res_json (JSON_parse t)"
    if "lookup (advance d w) ''movies:all'' = Some t" and "\<not> later (RedisGet ''movies:all'')"
  proof -
    have "lookup (advance d (snd (post_movies throws oid b w))) ''movies:all''
            = lookup (advance d w) ''movies:all''"
      unfolding post by (rule lookup_same_cache) (simp_all add: advance_def)
    with that show ?thesis
      by (simp add: get_movies_hit)
  qed
  with post show ?thesis
    by blast
qed

text \<open>
  The list of movies was cached at time 0 for 3600 seconds. The create whose
  fan-out fails answers 400; 3599 seconds after the list was cached, GET
  /movies still answers the one-movie list; one second later the entry has
  expired.
\<close>

theorem C9_fan_out_failure_keeps_movies_all_witness:
  "valid_movie godfather
   \<and> \<not> fan_out_fails (MovieCreate ''64fafd2832b624f30a4f4c02'')
   \<and> fan_out_fails (GenreUpdateMany (req_genres godfather))
   \<and> lookup (advance 3599 movies_listed) ''movies:all''
       = Some (Text (JArray [movie_toJSON shawshank]))
   \<and> lookup (advance 3600 movies_listed) ''movies:all'' = None
   \<and> status (fst (post_movies fan_out_fails ''64fafd2832b624f30a4f4c02'' godfather
                     movies_listed)) = 400
   \<and> fst (get_movies never
            (advance 3599 (snd (post_movies fan_out_fails ''64fafd2832b624f30a4f4c02''
                                  godfather movies_listed))))
       = res_json (JArray [movie_toJSON shawshank])"
proof -
  have valid: "valid_movie godfather"
    by (simp add: godfather_def valid_movie_def required_def or_empty_def)
  have stored: "\<not> fan_out_fails (MovieCreate ''64fafd2832b624f30a4f4c02'')"
    by (simp add: fan_out_fails_def)
  have fails: "fan_out_fails (GenreUpdateMany (req_genres godfather))"
    by (simp add: fan_out_fails_def godfather_def)
  have live: "lookup (advance 3599 movies_listed) ''movies:all''
                = Some (Text (JArray [movie_toJSON shawshank]))"
    by (simp add: movies_listed_def advance_def handlers prims lookup_def samples)
  have expired: "lookup (advance 3600 movies_listed) ''movies:all'' = None"
    by (simp add: movies_listed_def advance_def handlers prims lookup_def samples)
  note run = C9_fan_out_failure_keeps_movies_all [OF valid stored fails, where w = movies_listed
      and d = 3599 and t = "Text (JArray [movie_toJSON shawshank])" and later = never]
  have answered:
    "status (fst (post_movies fan_out_fails ''64fafd2832b624f30a4f4c02'' godfather
                    movies_listed)) = 400"
    using run [THEN conjunct1] by (simp add: res_status_json_def)
  have served:
    "fst (get_movies never
           (advance 3599 (snd (post_movies fan_out_fails ''64fafd2832b624f30a4f4c02''
                                 godfather movies_listed))))
       = res_json (JArray [movie_toJSON shawshank])"
    using run [THEN conjunct2] live by (simp add: never_throws)
  from valid stored fails live expired answered served show ?thesis
    by blast
qed

section \<open>Genres\<close>

text \<open>
  POST /genres with the name Drama on empty stores answers 201; the
  application has no route for GET /genres/:id, so the request for the id just
  generated is answered by the final handler, with 404 and no genre.
\<close>

theorem C8_no_route_for_genre_by_id:
  "status (fst (app never ''64fafd2832b624f30a4f4bf7'' POST [''genres''] drama_body blank)) = 201
   \<and> fst (app never ''64fafd2832b624f30a4f4bf7'' GET [''genres'', ''64fafd2832b624f30a4f4bf7'']
            drama_body
            (snd (app never ''64fafd2832b624f30a4f4bf7'' POST [''genres''] drama_body blank)))
      = res_status_json 404 (JString ''Not Found'')"
  by (simp add: finalhandler_def handlers prims blank_def drama_body_def never_def required_def)

text \<open>
  Claim C8, with the routes the application has. In the genre scenario, when no call fails: POST /genres
  with the name Drama answers 201 with the generated id and a record of that
  name; the application defines no GET /genres/:id route, so that request is
  answered 404, right after the create as well as after the delete; DELETE
  /genres/:id answers 200.
\<close>

theorem C8_genre_lifecycle:
  assumes "req_name b = Some ''Drama''" and "\<And>c. \<not> throws c"
  shows "genre_lifecycle throws oid b w =
     [res_status_json 201
        (JObject [(''message'', JString ''Genre Created''),
                  (''genre'', genre_toJSON
                     \<lparr>genre_id = oid, genre_name = ''Drama'', genre_movies = []\<rparr>)]),
      res_status_json 404 (JString ''Not Found''),
      res_json (JObject [(''message'', JString ''Genre deleted'')]),
      res_status_json 404 (JString ''Not Found'')]"
proof -
  have "findOne (\<lambda>g. genre_id g = oid) (Genres w @ [new_genre oid (Some ''Drama'')]) \<noteq> None"
    by (rule findOne_append_new) (simp add: new_genre_def)
  then obtain g where
    "findOne (\<lambda>g. genre_id g = oid) (Genres w @ [new_genre oid (Some ''Drama'')]) = Some g"
    by blast
  then show ?thesis
    using assms
    by (simp add: genre_lifecycle_def finalhandler_def handlers prims required_def new_genre_def
        or_else_def)
qed

text \<open>The scenario on empty stores: the statuses are 201, 404, 200, 404.\<close>

theorem C8_genre_lifecycle_witness:
  "req_name drama_body = Some ''Drama''
   \<and> map status (genre_lifecycle never ''64fafd2832b624f30a4f4bf7'' drama_body blank)
       = [201, 404, 200, 404]"
proof -
  have name: "req_name drama_body = Some ''Drama''"
    by (simp add: drama_body_def)
  show ?thesis
    using name
      C8_genre_lifecycle [OF name never_throws, where oid = "''64fafd2832b624f30a4f4bf7''"
        and w = blank]
    by (simp add: res_json_def res_status_json_def)
qed

text \<open>
  Claim C10. POST /genres reads nothing but the name from the request body:
  two bodies with the same name, whatever else they carry, give the same
  response and the same world. When the handler answers 201, the genre it
  added to the database has the generated id, the name of the body and an
  empty list of movies, and Redis holds under \<^verbatim>\<open>genre:<id>\<close>, for 3600 seconds,
  exactly the serialisation of that genre.
\<close>

theorem C10_post_genres_reads_name_only:
  "(req_name b = req_name b1 \<longrightarrow> post_genres throws oid b w = post_genres throws oid b1 w)
   \<and> (status (fst (post_genres throws oid b w)) = 201
      \<longrightarrow> Genres (snd (post_genres throws oid b w))
            = Genres w @ [\<lparr>genre_id = oid, genre_name = or_else (req_name b) [],
                           genre_movies = []\<rparr>]
          \<and> redis (snd (post_genres throws oid b w)) (''genre:'' @ oid)
            = Some (clock w + 3600,
                    JSON_stringify (genre_toJSON
                      \<lparr>genre_id = oid, genre_name = or_else (req_name b) [],
                       genre_movies = []\<rparr>)))"
  by (simp add: handlers prims new_genre_def split: if_splits)

text \<open>
  A body that also carries a list of movies is treated as the body with the
  name alone: the genre is created with no movies, and cached so.
\<close>

theorem C10_post_genres_reads_name_only_witness:
  "req_name drama_payload = req_name drama_body
   \<and> req_movies drama_payload = Some [''64fafd2832b624f30a4f4c01'']
   \<and> post_genres never ''64fafd2832b624f30a4f4bf7'' drama_payload blank
       = post_genres never ''64fafd2832b624f30a4f4bf7'' drama_body blank
   \<and> status (fst (post_genres never ''64fafd2832b624f30a4f4bf7'' drama_payload blank)) = 201
   \<and> Genres (snd (post_genres never ''64fafd2832b624f30a4f4bf7'' drama_payload blank))
       = [\<lparr>genre_id = ''64fafd2832b624f30a4f4bf7'', genre_name = ''Drama'', genre_movies = []\<rparr>]
   \<and> redis (snd (post_genres never ''64fafd2832b624f30a4f4bf7'' drama_payload blank))
        ''genre:64fafd2832b624f30a4f4bf7''
       = Some (3600, Text (genre_toJSON
           \<lparr>genre_id = ''64fafd2832b624f30a4f4bf7'', genre_name = ''Drama'', genre_movies = []\<rparr>))"
proof -
  have same: "req_name drama_payload = req_name drama_body"
    by (simp add: drama_payload_def drama_body_def)
  have created:
    "status (fst (post_genres never ''64fafd2832b624f30a4f4bf7'' drama_payload blank)) = 201"
    by (simp add: handlers prims drama_payload_def blank_def never_def required_def)
  note run = C10_post_genres_reads_name_only [where b = drama_payload and ?b1.0 = drama_body
      and throws = never and oid = "''64fafd2832b624f30a4f4bf7''" and w = blank]
  have ignored:
    "post_genres never ''64fafd2832b624f30a4f4bf7'' drama_payload blank
       = post_genres never ''64fafd2832b624f30a4f4bf7'' drama_body blank"
    using run [THEN conjunct1] same by blast
  have name: "or_else (req_name drama_payload) [] = ''Drama''"
    by (simp add: drama_payload_def or_else_def)
  have stored:
    "Genres (snd (post_genres never ''64fafd2832b624f30a4f4bf7'' drama_payload blank))
       = [\<lparr>genre_id = ''64fafd2832b624f30a4f4bf7'', genre_name = ''Drama'', genre_movies = []\<rparr>]
     \<and> redis (snd (post_genres never ''64fafd2832b624f30a4f4bf7'' drama_payload blank))
          ''genre:64fafd2832b624f30a4f4bf7''
       = Some (3600, Text (genre_toJSON
           \<lparr>genre_id = ''64fafd2832b624f30a4f4bf7'', genre_name = ''Drama'', genre_movies = []\<rparr>))"
    using run [THEN conjunct2] created unfolding name
    by (simp add: blank_def)
  have sent: "req_movies drama_payload = Some [''64fafd2832b624f30a4f4c01'']"
    by (simp add: drama_payload_def)
  from same sent ignored created stored show ?thesis
    by blast
qed

end
